theory Spec2Isabelle
  imports Main "HOL-Library.Word"
begin

section \<open>JavaScript values, thrown values and string helpers\<close>

text \<open>
  A cell of an engine result set is an \<open>SqlValue\<close> of sql.js:
  \<open>number | string | Uint8Array | null\<close>.

  A number cell is a JavaScript Number, a double. The code does two things with a
  number: it prints it (\<open>String\<close>, in a template literal or as a property key) and it
  compares it with \<open>1\<close>. A number is therefore represented by the text that
  \<open>Number::toString\<close> gives it, which determines the number up to the sign of zero
  (both zeros print \<open>0\<close>, and neither equals \<open>1\<close>): \<open>SqlNum ''1''\<close> is the number 1,
  \<open>SqlNum ''1.5''\<close> a REAL cell, \<open>SqlNum ''1152921504606847000''\<close> the number \<open>2^60\<close>,
  \<open>SqlNum ''NaN''\<close> the value NaN. A \<open>Uint8Array\<close> is its list of bytes.
\<close>

datatype sqlvalue = SqlNull | SqlNum string | SqlStr string | SqlBlob "8 word list"

text \<open>What an indexed read \<open>xs[i]\<close> of an array of cells yields: a cell or
  \<open>undefined\<close>.\<close>

datatype jsval = Undefined | Val sqlvalue

text \<open>
  What a \<open>throw\<close> carries. \<open>Error m\<close> is an instance of \<open>Error\<close> (a \<open>TypeError\<close>
  included) with message \<open>m\<close>; \<open>NonError s\<close> is any thrown value that is not an
  \<open>Error\<close> instance, \<open>s\<close> being its \<open>String(...)\<close> rendering.

  Modelled from the spec: \<open>CustomQueryError\<close> is imported from the module
  \<open>./sqlite\<close> of the worker, which is not among the source files; the spec describes it
  as the error that wraps the engine's message for user-authored SQL, so it is a subclass
  of \<open>Error\<close> carrying a message.
\<close>

datatype thrown = Error string | CustomQueryError string | NonError string

fun instanceof_Error :: "thrown \<Rightarrow> bool" where
  "instanceof_Error (Error m) = True"
| "instanceof_Error (CustomQueryError m) = True"
| "instanceof_Error (NonError s) = False"

fun instanceof_CustomQueryError :: "thrown \<Rightarrow> bool" where
  "instanceof_CustomQueryError (CustomQueryError m) = True"
| "instanceof_CustomQueryError (Error m) = False"
| "instanceof_CustomQueryError (NonError s) = False"

fun message :: "thrown \<Rightarrow> string" where
  "message (Error m) = m"
| "message (CustomQueryError m) = m"
| "message (NonError s) = []"

text \<open>The \<open>TypeError\<close> raised by reading a property of \<open>undefined\<close>, and the one
  raised in strict code (a module is strict code) by setting a property on a primitive
  value. The wording of a message is the JavaScript engine's own; only its being an
  \<open>Error\<close> matters.\<close>

definition TypeError_undefined :: thrown where
  "TypeError_undefined = Error ''Cannot read properties of undefined''"

definition TypeError_primitive :: thrown where
  "TypeError_primitive = Error ''Cannot create property on a primitive value''"

definition dquote :: string where
  "dquote = [CHR 0x22]"

definition newline :: string where
  "newline = [CHR 0x0A]"

text \<open>\<open>Array.prototype.join\<close> on an array of strings.\<close>

fun join :: "string \<Rightarrow> string list \<Rightarrow> string" where
  "join sep [] = []"
| "join sep [x] = x"
| "join sep (x # y # ys) = x @ sep @ join sep (y # ys)"

text \<open>Decimal rendering of a natural number (used for the bytes of a \<open>Uint8Array\<close>).\<close>

definition digit_char :: "nat \<Rightarrow> char" where
  "digit_char d = ''0123456789'' ! d"

function show_nat :: "nat \<Rightarrow> string" where
  "show_nat n = (if n < 10 then [digit_char n] else show_nat (n div 10) @ [digit_char (n mod 10)])"
  by pat_completeness auto
termination
  by (relation "measure id") auto

declare show_nat.simps [simp del]

text \<open>
  \<open>String(v)\<close>, which a template literal \<open>`${v}`\<close> and a property key \<open>o[v]\<close> apply:
  \<open>null\<close> prints as \<open>null\<close>, \<open>undefined\<close> as \<open>undefined\<close>, a number as
  \<open>Number::toString\<close> prints it, a \<open>Uint8Array\<close> as its bytes joined by commas.
\<close>

fun String_sql :: "sqlvalue \<Rightarrow> string" where
  "String_sql SqlNull = ''null''"
| "String_sql (SqlNum text) = text"
| "String_sql (SqlStr s) = s"
| "String_sql (SqlBlob bs) = join '','' (map (\<lambda>b. show_nat (unat b)) bs)"

fun String_js :: "jsval \<Rightarrow> string" where
  "String_js Undefined = ''undefined''"
| "String_js (Val v) = String_sql v"

text \<open>The truthiness of a cell: \<open>undefined\<close>, \<open>null\<close>, the empty string, zero and
  NaN are falsy. A \<open>Uint8Array\<close> is an object; the other cells are primitive values.\<close>

fun truthy :: "jsval \<Rightarrow> bool" where
  "truthy Undefined = False"
| "truthy (Val SqlNull) = False"
| "truthy (Val (SqlNum text)) = (text \<noteq> ''0'' \<and> text \<noteq> ''NaN'')"
| "truthy (Val (SqlStr s)) = (s \<noteq> [])"
| "truthy (Val (SqlBlob bs)) = True"

fun is_object :: "jsval \<Rightarrow> bool" where
  "is_object (Val (SqlBlob bs)) = True"
| "is_object v = False"

text \<open>\<open>xs[i]\<close> on an array: \<open>undefined\<close> out of range, no exception.\<close>

definition index_js :: "sqlvalue list \<Rightarrow> nat \<Rightarrow> jsval" where
  "index_js xs i = (if i < length xs then Val (xs ! i) else Undefined)"

section \<open>src/lib/sqlite.ts\<close>

text \<open>
  A \<open>QueryExecResult\<close> of sql.js: the ordered column names and the value tuples.
  A \<open>Database\<close> is seen through \<open>database.exec(sql)\<close>, which returns the list of
  result sets or throws; every statement this module sends is a read.
\<close>

record QueryExecResult =
  qcolumns :: "string list"
  qvalues :: "sqlvalue list list"

type_synonym Database = "string \<Rightarrow> thrown + QueryExecResult list"

text \<open>What \<open>console.error\<close> received: the text and the error object.\<close>

type_synonym logline = "string \<times> thrown"

subsection \<open>Plain objects used as rows\<close>

text \<open>
  A \<open>TableRow\<close> is a plain object, created as \<open>{}\<close>: its own properties (from column
  name to cell) and its prototype. The prototype is \<open>Object.prototype\<close> at first; the
  assignment \<open>acc['__proto__'] = v\<close> does not create a property but runs the setter
  inherited from \<open>Object.prototype\<close>, which replaces the prototype when \<open>v\<close> is \<open>null\<close>
  or an object (here a \<open>Uint8Array\<close>) and does nothing for any other value.
\<close>

datatype prototype = ObjectPrototype | NullPrototype | ArrayPrototype "8 word list"

record TableRow =
  own :: "string \<rightharpoonup> jsval"
  proto :: prototype

text \<open>
  Two things are the JavaScript runtime's and are parameters of the model:
  \<^item> what an assignment \<open>acc[k] = v\<close> does when \<open>acc\<close> has no own property \<open>k\<close> and its
    prototype is a \<open>Uint8Array\<close> (the typed array's own \<open>[[Set]]\<close> decides, by the key:
    an integer index of the array, another numeric key, a read-only accessor such as
    \<open>length\<close>): it defines the own property, does nothing, or throws;
  \<^item> the text that \<open>String(row[k])\<close> gives when \<open>row\<close> has no own property \<open>k\<close>, the
    key is not \<open>__proto__\<close> and the prototype is not \<open>null\<close>, so that the read finds
    whatever the prototype chain holds under \<open>k\<close> (a built-in method of
    \<open>Object.prototype\<close>, an element of the array, nothing).
\<close>

datatype set_outcome = DefinesOwn | Ignored | Refused thrown

record runtime =
  array_proto_set :: "8 word list \<Rightarrow> string \<Rightarrow> set_outcome"
  inherited_text :: "prototype \<Rightarrow> string \<Rightarrow> string"

definition empty_object :: TableRow where
  "empty_object = \<lparr>own = Map.empty, proto = ObjectPrototype\<rparr>"

definition define_own :: "TableRow \<Rightarrow> string \<Rightarrow> jsval \<Rightarrow> TableRow" where
  "define_own acc col v = acc\<lparr>own := (own acc)(col \<mapsto> v)\<rparr>"

text \<open>The setter of \<open>__proto__\<close>.\<close>

fun proto_setter :: "TableRow \<Rightarrow> jsval \<Rightarrow> TableRow" where
  "proto_setter acc (Val SqlNull) = acc\<lparr>proto := NullPrototype\<rparr>"
| "proto_setter acc (Val (SqlBlob bs)) = acc\<lparr>proto := ArrayPrototype bs\<rparr>"
| "proto_setter acc v = acc"

text \<open>
  \<open>acc[col] = v\<close>. An own property is overwritten. Otherwise the prototype chain
  decides: with the prototype \<open>null\<close> nothing is inherited and the property is defined,
  \<open>__proto__\<close> included; with \<open>Object.prototype\<close> in the chain the key \<open>__proto__\<close>
  reaches the setter, and every other key is defined as an own property (directly under
  \<open>Object.prototype\<close>, as the runtime's typed array decides under a \<open>Uint8Array\<close>).
\<close>

definition assign :: "runtime \<Rightarrow> TableRow \<Rightarrow> string \<Rightarrow> jsval \<Rightarrow> thrown + TableRow" where
  "assign R acc col v =
     (case own acc col of
        Some old \<Rightarrow> Inr (define_own acc col v)
      | None \<Rightarrow>
          (case proto acc of
             NullPrototype \<Rightarrow> Inr (define_own acc col v)
           | ObjectPrototype \<Rightarrow>
               if col = ''__proto__'' then Inr (proto_setter acc v)
               else Inr (define_own acc col v)
           | ArrayPrototype bs \<Rightarrow>
               if col = ''__proto__'' then Inr (proto_setter acc v)
               else (case array_proto_set R bs col of
                       DefinesOwn \<Rightarrow> Inr (define_own acc col v)
                     | Ignored \<Rightarrow> Inr acc
                     | Refused e \<Rightarrow> Inl e)))"

text \<open>
  \<open>`${row[col]}`\<close>: the text of a property read. An own property gives its cell.
  Otherwise \<open>__proto__\<close> reads the prototype itself through the inherited getter
  (\<open>Object.prototype\<close> prints \<open>[object Object]\<close>, a \<open>Uint8Array\<close> its bytes; with the
  prototype \<open>null\<close> there is no getter and the read is \<open>undefined\<close>), and any other key
  reads what the prototype chain holds.
\<close>

definition prop_text :: "runtime \<Rightarrow> TableRow \<Rightarrow> string \<Rightarrow> string" where
  "prop_text R row col =
     (case own row col of
        Some v \<Rightarrow> String_js v
      | None \<Rightarrow>
          (case proto row of
             NullPrototype \<Rightarrow> ''undefined''
           | ObjectPrototype \<Rightarrow>
               if col = ''__proto__'' then ''[object Object]''
               else inherited_text R ObjectPrototype col
           | ArrayPrototype bs \<Rightarrow>
               if col = ''__proto__'' then String_sql (SqlBlob bs)
               else inherited_text R (ArrayPrototype bs) col))"

subsection \<open>getTableNames\<close>

definition table_names_query :: string where
  "table_names_query = ''SELECT name FROM sqlite_master WHERE type='' @ [CHR 0x27] @ ''table'' @ [CHR 0x27] @ '';''"

definition getTableNames :: "Database \<Rightarrow> jsval list \<times> logline list" where
  "getTableNames database =
     (case database table_names_query of
        Inl e \<Rightarrow> ([], [(''Failed to get table names:'', e)])
      | Inr result \<Rightarrow>
          (case result of
             [] \<Rightarrow> ([], [])
           | r # _ \<Rightarrow> (map (\<lambda>row. index_js row 0) (qvalues r), [])))"

subsection \<open>getTableSchema\<close>

record ColumnSchema =
  type :: jsval
  isPrimaryKey :: bool
  isForeignKey :: bool

text \<open>
  The schema is a plain object too, from column name to entry. Every value assigned to
  it is an object, so \<open>acc['__proto__'] = {...}\<close> always replaces the prototype by that
  entry and adds no key. The prototype is \<open>Object.prototype\<close> (with the flag: has this
  call given \<open>Object.prototype\<close> itself a property \<open>isForeignKey = true\<close>) or such an
  entry. \<open>Object.prototype\<close> is taken as the language defines it when the call starts.
\<close>

datatype schema_prototype = PlainPrototype bool | EntryPrototype ColumnSchema

record TableSchema =
  entries :: "string \<rightharpoonup> ColumnSchema"
  inherits :: schema_prototype

definition table_info_query :: "string \<Rightarrow> string" where
  "table_info_query tableName = ''PRAGMA table_info('' @ dquote @ tableName @ dquote @ '')''"

definition foreign_key_list_query :: "string \<Rightarrow> string" where
  "foreign_key_list_query tableName =
     ''PRAGMA foreign_key_list('' @ dquote @ tableName @ dquote @ '')''"

text \<open>The \<open>reduce\<close> over the rows of \<open>PRAGMA table_info\<close>: one assignment per row,
  under the key \<open>row[1]\<close>. Any key but \<open>__proto__\<close> defines or overwrites an own entry
  (what the prototype holds under the key is a writable data property or nothing).\<close>

definition table_info_step :: "TableSchema \<Rightarrow> sqlvalue list \<Rightarrow> TableSchema" where
  "table_info_step acc row =
     (let key = String_js (index_js row 1);
          entry = \<lparr>type = index_js row 2,
                   isPrimaryKey = (index_js row 5 = Val (SqlNum ''1'')),
                   isForeignKey = False\<rparr>
      in case entries acc key of
           Some old \<Rightarrow> acc\<lparr>entries := (entries acc)(key \<mapsto> entry)\<rparr>
         | None \<Rightarrow>
             if key = ''__proto__'' then acc\<lparr>inherits := EntryPrototype entry\<rparr>
             else acc\<lparr>entries := (entries acc)(key \<mapsto> entry)\<rparr>)"

text \<open>
  The body of the \<open>forEach\<close> over the rows of \<open>PRAGMA foreign_key_list\<close>:
  \<open>if (tableSchema[columnName]) tableSchema[columnName].isForeignKey = true\<close>.
  An own entry is marked. Without an own entry the read goes to the prototype chain:
  \<open>__proto__\<close> reads the prototype itself, an object, which gets the mark; a key that
  the prototype entry holds (\<open>type\<close>, \<open>isPrimaryKey\<close>, \<open>isForeignKey\<close>) reads that
  field, and marking a truthy primitive value throws in strict code; a key found on
  \<open>Object.prototype\<close> reads a built-in function, whose mark changes no entry, unless it
  is the \<open>isForeignKey = true\<close> this call has put there; any other key reads
  \<open>undefined\<close>.
\<close>

definition foreign_key_step :: "TableSchema \<Rightarrow> sqlvalue list \<Rightarrow> thrown + TableSchema" where
  "foreign_key_step tableSchema row =
     (let columnName = String_js (index_js row 3) in
      case entries tableSchema columnName of
        Some c \<Rightarrow>
          Inr (tableSchema\<lparr>entries := (entries tableSchema)(columnName \<mapsto> c\<lparr>isForeignKey := True\<rparr>)\<rparr>)
      | None \<Rightarrow>
          (case inherits tableSchema of
             PlainPrototype marked \<Rightarrow>
               if columnName = ''__proto__'' then Inr (tableSchema\<lparr>inherits := PlainPrototype True\<rparr>)
               else if columnName = ''isForeignKey'' \<and> marked then Inl TypeError_primitive
               else Inr tableSchema
           | EntryPrototype p \<Rightarrow>
               if columnName = ''__proto__''
               then Inr (tableSchema\<lparr>inherits := EntryPrototype (p\<lparr>isForeignKey := True\<rparr>)\<rparr>)
               else if columnName = ''type''
               then (if truthy (type p) \<and> \<not> is_object (type p) then Inl TypeError_primitive
                     else Inr tableSchema)
               else if columnName = ''isPrimaryKey''
               then (if isPrimaryKey p then Inl TypeError_primitive else Inr tableSchema)
               else if columnName = ''isForeignKey''
               then (if isForeignKey p then Inl TypeError_primitive else Inr tableSchema)
               else Inr tableSchema))"

text \<open>\<open>Array.prototype.forEach\<close> with a callback that updates the schema: an exception
  leaving the callback ends the loop.\<close>

fun foreign_key_forEach :: "TableSchema \<Rightarrow> sqlvalue list list \<Rightarrow> thrown + TableSchema" where
  "foreign_key_forEach tableSchema [] = Inr tableSchema"
| "foreign_key_forEach tableSchema (row # rows) =
     (case foreign_key_step tableSchema row of
        Inl e \<Rightarrow> Inl e
      | Inr tableSchema' \<Rightarrow> foreign_key_forEach tableSchema' rows)"

definition empty_schema :: TableSchema where
  "empty_schema = \<lparr>entries = Map.empty, inherits = PlainPrototype False\<rparr>"

definition getTableSchema_body :: "Database \<Rightarrow> string \<Rightarrow> thrown + TableSchema" where
  "getTableSchema_body database tableName =
     (case database (table_info_query tableName) of
        Inl e \<Rightarrow> Inl e
      | Inr tableInfoResult \<Rightarrow>
          (case tableInfoResult of
             [] \<Rightarrow> Inl TypeError_undefined
           | ti # _ \<Rightarrow>
               (let tableSchema = foldl table_info_step empty_schema (qvalues ti) in
                case database (foreign_key_list_query tableName) of
                  Inl e \<Rightarrow> Inl e
                | Inr foreignKeyInfoResult \<Rightarrow>
                    (case foreignKeyInfoResult of
                       [] \<Rightarrow> Inr tableSchema
                     | fk # _ \<Rightarrow> foreign_key_forEach tableSchema (qvalues fk)))))"

text \<open>The \<open>catch\<close> logs and rethrows.\<close>

definition getTableSchema :: "Database \<Rightarrow> string \<Rightarrow> (thrown + TableSchema) \<times> logline list" where
  "getTableSchema database tableName =
     (case getTableSchema_body database tableName of
        Inl e \<Rightarrow>
          (Inl e, [(''Failed to get schema for table '' @ dquote @ tableName @ dquote @ '':'', e)])
      | Inr tableSchema \<Rightarrow> (Inr tableSchema, []))"

subsection \<open>mapQueryResults\<close>

record MappedResults =
  data :: "TableRow list"
  columns :: "string list"

text \<open>\<open>columns.reduce((acc, col, index) => { acc[col] = row[index]; return acc }, {})\<close>:
  the assignments in the order of the columns; an assignment that throws ends the
  \<open>reduce\<close>.\<close>

fun assign_all :: "runtime \<Rightarrow> TableRow \<Rightarrow> (string \<times> jsval) list \<Rightarrow> thrown + TableRow" where
  "assign_all R acc [] = Inr acc"
| "assign_all R acc ((col, v) # rest) =
     (case assign R acc col v of
        Inl e \<Rightarrow> Inl e
      | Inr acc' \<Rightarrow> assign_all R acc' rest)"

definition row_object :: "runtime \<Rightarrow> string list \<Rightarrow> sqlvalue list \<Rightarrow> thrown + TableRow" where
  "row_object R cols row =
     assign_all R empty_object (zip cols (map (index_js row) [0 ..< length cols]))"

text \<open>\<open>Array.prototype.map\<close> with a callback that may throw: the first exception leaves
  the \<open>map\<close>.\<close>

fun map_throwing :: "('a \<Rightarrow> thrown + 'b) \<Rightarrow> 'a list \<Rightarrow> thrown + 'b list" where
  "map_throwing f [] = Inr []"
| "map_throwing f (x # xs) =
     (case f x of
        Inl e \<Rightarrow> Inl e
      | Inr y \<Rightarrow> (case map_throwing f xs of Inl e \<Rightarrow> Inl e | Inr ys \<Rightarrow> Inr (y # ys)))"

definition mapQueryResults :: "runtime \<Rightarrow> QueryExecResult list \<Rightarrow> thrown + MappedResults" where
  "mapQueryResults R result =
     (case result of
        r # _ \<Rightarrow>
          (case map_throwing (row_object R (qcolumns r)) (qvalues r) of
             Inl e \<Rightarrow> Inl e
           | Inr rows \<Rightarrow> Inr \<lparr>data = rows, columns = qcolumns r\<rparr>)
      | [] \<Rightarrow> Inr \<lparr>data = [], columns = []\<rparr>)"

subsection \<open>arrayToCSV\<close>

definition arrayToCSV :: "runtime \<Rightarrow> string list \<Rightarrow> TableRow list \<Rightarrow> string" where
  "arrayToCSV R cols rows =
     (let header = join '','' cols;
          csvRows = map (\<lambda>row. join '','' (map (\<lambda>col. dquote @ prop_text R row col @ dquote) cols)) rows
      in join newline (header # csvRows))"

subsection \<open>exportTableAsCSV and exportAllTablesAsCSV\<close>

text \<open>
  What an export leaves behind, in order: a file handed to \<open>saveAs\<close> (name and text),
  or a line on \<open>console.error\<close>. \<open>saveAs\<close> (with the \<open>Blob\<close> built for it) is the
  browser's; it is a parameter that may throw.
\<close>

datatype event = Saved string string | Logged string thrown

type_synonym saver = "string \<Rightarrow> string \<Rightarrow> thrown option"

text \<open>The body of the \<open>try\<close> block, the same text in both functions.\<close>

definition export_try :: "runtime \<Rightarrow> saver \<Rightarrow> Database \<Rightarrow> jsval \<Rightarrow> thrown + event" where
  "export_try R saveAs database tableName =
     (case database (''SELECT * FROM '' @ String_js tableName) of
        Inl e \<Rightarrow> Inl e
      | Inr result \<Rightarrow>
          if length result = 0
          then Inl (Error (''Table '' @ String_js tableName @ '' is empty or does not exist.''))
          else
            (case mapQueryResults R result of
               Inl e \<Rightarrow> Inl e
             | Inr m \<Rightarrow>
                 (let csvContent = arrayToCSV R (columns m) (data m)
                  in case saveAs csvContent (String_js tableName @ ''.csv'') of
                       Some e \<Rightarrow> Inl e
                     | None \<Rightarrow> Inr (Saved (String_js tableName @ ''.csv'') csvContent))))"








section \<open>The worker's protocol handler (\<open>self.onmessage\<close>)\<close>

text \<open>
  The handler owns one global, \<open>instance\<close>, which is \<open>null\<close> or an object of the class
  \<open>Sqlite\<close>. That class is imported from \<open>./sqlite\<close> and is not among the source
  files, so the handler is modelled over any implementation of it: a record of its
  static constructors, its getters and its methods. \<open>'db\<close> is the state of the object;
  a method returns the state it leaves and either its result or what it threw. The
  schemas (\<open>'ts\<close>, \<open>'is\<close>), the rows (\<open>'row\<close>) and the filters and sorters (\<open>'f\<close>, \<open>'s\<close>)
  are passed through by the handler unread.
\<close>

type_synonym bytes = "nat list"

record ('db, 'ts, 'is, 'row, 'f, 's) Sqlite =
  create :: "thrown + 'db"
  openFile :: "bytes \<Rightarrow> thrown + 'db"
  tablesSchema :: "'db \<Rightarrow> 'ts"
  indexesSchema :: "'db \<Rightarrow> 'is"
  firstTable :: "'db \<Rightarrow> string option"
  getTableData :: "'db \<Rightarrow> string \<Rightarrow> int \<Rightarrow> int \<Rightarrow> 'f \<Rightarrow> 's \<Rightarrow> 'db \<times> (thrown + 'row list \<times> int)"
  exec :: "'db \<Rightarrow> string \<Rightarrow> 'db \<times> (thrown + 'row list \<times> bool)"
  download :: "'db \<Rightarrow> 'db \<times> (thrown + bytes)"
  update :: "'db \<Rightarrow> string \<Rightarrow> string list \<Rightarrow> sqlvalue list \<Rightarrow> sqlvalue \<Rightarrow> 'db \<times> thrown option"
  delete :: "'db \<Rightarrow> string \<Rightarrow> sqlvalue \<Rightarrow> 'db \<times> thrown option"
  insert_row :: "'db \<Rightarrow> string \<Rightarrow> string list \<Rightarrow> sqlvalue list \<Rightarrow> 'db \<times> thrown option"
  getTableAsCsv :: "'db \<Rightarrow> string \<Rightarrow> 'db \<times> (thrown + string)"
  getCurrentDataAsCsv :: "'db \<Rightarrow> string \<Rightarrow> int \<Rightarrow> int \<Rightarrow> 'f \<Rightarrow> 's \<Rightarrow> 'db \<times> (thrown + string)"

text \<open>
  A \<open>WorkerEvent\<close>: the action and the fields the handler reads from its payload, in the
  order the handler destructures them. \<open>Other a\<close> is a message whose action is none of
  the ten the \<open>switch\<close> names.
\<close>

datatype ('f, 's) WorkerEvent =
    Init
  | OpenFile bytes
  | Refresh string int int 'f 's
  | Exec string string int int 'f 's
  | GetTableData string int int 'f 's
  | Download
  | Update string "string list" "sqlvalue list" sqlvalue
  | Delete string sqlvalue
  | Insert string "string list" "sqlvalue list"
  | Export string 'f 's int int string
  | Other string

text \<open>The messages the handler posts, by their \<open>action\<close>.\<close>

datatype ('ts, 'is, 'row) response =
    InitComplete 'ts 'is "string option"
  | QueryComplete "'row list" int
  | UpdateInstance 'ts 'is
  | CustomQueryComplete "'row list"
  | DownloadComplete bytes
  | UpdateComplete string
  | InsertComplete
  | ExportComplete string
  | QueryError string bool

text \<open>
  The outcome of a block of the handler: the value of \<open>instance\<close> it leaves, the
  messages it posted (\<open>self.postMessage\<close> of a plain object, taken not to throw), and
  the exception leaving the block, if one does.
\<close>

type_synonym ('db, 'ts, 'is, 'row) outcome =
  "'db option \<times> ('ts, 'is, 'row) response list \<times> thrown option"

definition initComplete :: "('db, 'ts, 'is, 'row, 'f, 's) Sqlite \<Rightarrow> 'db \<Rightarrow> ('ts, 'is, 'row) response" where
  "initComplete S db = InitComplete (tablesSchema S db) (indexesSchema S db) (firstTable S db)"

text \<open>The cases \<open>refresh\<close> and \<open>getTableData\<close>, and the fallback of \<open>exec\<close>: a windowed
  read, posted as \<open>queryComplete\<close>.\<close>

definition windowed_read ::
  "('db, 'ts, 'is, 'row, 'f, 's) Sqlite \<Rightarrow> 'db \<Rightarrow> string \<Rightarrow> int \<Rightarrow> int \<Rightarrow> 'f \<Rightarrow> 's
     \<Rightarrow> ('db, 'ts, 'is, 'row) outcome" where
  "windowed_read S db currentTable limit offset filters sorters =
     (case getTableData S db currentTable limit offset filters sorters of
        (db', Inl e) \<Rightarrow> (Some db', [], Some e)
      | (db', Inr (results, maxSize)) \<Rightarrow> (Some db', [QueryComplete results maxSize], None))"

text \<open>The inner \<open>try\<close> block of the case \<open>exec\<close>.\<close>

definition exec_try ::
  "('db, 'ts, 'is, 'row, 'f, 's) Sqlite \<Rightarrow> 'db \<Rightarrow> string \<Rightarrow> string \<Rightarrow> int \<Rightarrow> int \<Rightarrow> 'f \<Rightarrow> 's
     \<Rightarrow> ('db, 'ts, 'is, 'row) outcome" where
  "exec_try S db query currentTable limit offset filters sorters =
     (case exec S db query of
        (db', Inl e) \<Rightarrow> (Some db', [], Some e)
      | (db', Inr (results, doTablesChanged)) \<Rightarrow>
          if doTablesChanged
          then (Some db', [UpdateInstance (tablesSchema S db') (indexesSchema S db')], None)
          else if length results > 0
          then (Some db', [CustomQueryComplete results], None)
          else windowed_read S db' currentTable limit offset filters sorters)"

text \<open>The inner \<open>catch\<close> of the case \<open>exec\<close>: an \<open>Error\<close> is rethrown as a
  \<open>CustomQueryError\<close> with the same message; anything else thrown is dropped.\<close>

definition exec_catch :: "thrown \<Rightarrow> thrown option" where
  "exec_catch error =
     (if instanceof_Error error then Some (CustomQueryError (message error)) else None)"

definition exec_case ::
  "('db, 'ts, 'is, 'row, 'f, 's) Sqlite \<Rightarrow> 'db \<Rightarrow> string \<Rightarrow> string \<Rightarrow> int \<Rightarrow> int \<Rightarrow> 'f \<Rightarrow> 's
     \<Rightarrow> ('db, 'ts, 'is, 'row) outcome" where
  "exec_case S db query currentTable limit offset filters sorters =
     (case exec_try S db query currentTable limit offset filters sorters of
        (inst, out, None) \<Rightarrow> (inst, out, None)
      | (inst, out, Some error) \<Rightarrow> (inst, out, exec_catch error))"

text \<open>A mutation (\<open>update\<close>, \<open>delete\<close>, \<open>insert\<close>) and the message posted after it.\<close>

definition mutation ::
  "'db \<times> thrown option \<Rightarrow> ('ts, 'is, 'row) response \<Rightarrow> ('db, 'ts, 'is, 'row) outcome" where
  "mutation r ack =
     (case r of
        (db', Some e) \<Rightarrow> (Some db', [], Some e)
      | (db', None) \<Rightarrow> (Some db', [ack], None))"

definition export_case ::
  "'db \<times> (thrown + string) \<Rightarrow> ('db, 'ts, 'is, 'row) outcome" where
  "export_case r =
     (case r of
        (db', Inl e) \<Rightarrow> (Some db', [], Some e)
      | (db', Inr results) \<Rightarrow> (Some db', [ExportComplete results], None))"

text \<open>The \<open>switch\<close> inside the outer \<open>try\<close>, entered with a non-null \<open>instance\<close>.\<close>

fun switch ::
  "('db, 'ts, 'is, 'row, 'f, 's) Sqlite \<Rightarrow> 'db \<Rightarrow> ('f, 's) WorkerEvent \<Rightarrow> ('db, 'ts, 'is, 'row) outcome" where
  "switch S db (OpenFile file) =
     (case openFile S file of
        Inl e \<Rightarrow> (Some db, [], Some e)
      | Inr db' \<Rightarrow> (Some db', [initComplete S db'], None))"
| "switch S db (Refresh currentTable limit offset filters sorters) =
     windowed_read S db currentTable limit offset filters sorters"
| "switch S db (Exec query currentTable limit offset filters sorters) =
     exec_case S db query currentTable limit offset filters sorters"
| "switch S db (GetTableData currentTable limit offset filters sorters) =
     windowed_read S db currentTable limit offset filters sorters"
| "switch S db Download =
     (case download S db of
        (db', Inl e) \<Rightarrow> (Some db', [], Some e)
      | (db', Inr bs) \<Rightarrow> (Some db', [DownloadComplete bs], None))"
| "switch S db (Update table cols vals primaryValue) =
     mutation (update S db table cols vals primaryValue) (UpdateComplete ''updated'')"
| "switch S db (Delete table primaryValue) =
     mutation (delete S db table primaryValue) (UpdateComplete ''deleted'')"
| "switch S db (Insert table cols vals) =
     mutation (insert_row S db table cols vals) InsertComplete"
| "switch S db (Export table filters sorters limit offset exportType) =
     (if exportType = ''table''
      then export_case (getTableAsCsv S db table)
      else export_case (getCurrentDataAsCsv S db table limit offset filters sorters))"
| "switch S db (Other a) = (Some db, [], None)"
| "switch S db Init = (Some db, [], None)"

text \<open>The outer \<open>catch\<close>: one \<open>queryError\<close> message, whatever was thrown.\<close>

definition queryError :: "thrown \<Rightarrow> ('ts, 'is, 'row) response" where
  "queryError error =
     (if instanceof_Error error
      then QueryError (message error) (instanceof_CustomQueryError error)
      else QueryError ''Unknown error'' False)"

text \<open>
  The handler: \<open>init\<close> first, outside any \<open>try\<close>, so a rejected \<open>Sqlite.create()\<close>
  leaves the handler as an exception; then the null check; then the \<open>switch\<close> under
  the outer \<open>try\<close>/\<open>catch\<close>.
\<close>

definition onmessage ::
  "('db, 'ts, 'is, 'row, 'f, 's) Sqlite \<Rightarrow> 'db option \<Rightarrow> ('f, 's) WorkerEvent
     \<Rightarrow> ('db, 'ts, 'is, 'row) outcome" where
  "onmessage S inst ev =
     (if ev = Init
      then (case create S of
              Inl e \<Rightarrow> (inst, [], Some e)
            | Inr db \<Rightarrow> (Some db, [initComplete S db], None))
      else case inst of
             None \<Rightarrow> (None, [QueryError ''Database is not initialized'' False], None)
           | Some db \<Rightarrow>
               (case switch S db ev of
                  (inst', out, None) \<Rightarrow> (inst', out, None)
                | (inst', out, Some error) \<Rightarrow> (inst', out @ [queryError error], None)))"

text \<open>The three parts of an outcome.\<close>

definition instance_after :: "('db, 'ts, 'is, 'row) outcome \<Rightarrow> 'db option" where
  "instance_after r = fst r"

definition posted :: "('db, 'ts, 'is, 'row) outcome \<Rightarrow> ('ts, 'is, 'row) response list" where
  "posted r = fst (snd r)"

definition escaped :: "('db, 'ts, 'is, 'row) outcome \<Rightarrow> thrown option" where
  "escaped r = snd (snd r)"

fun is_error_response :: "('ts, 'is, 'row) response \<Rightarrow> bool" where
  "is_error_response (QueryError m b) = True"
| "is_error_response r = False"

section \<open>Loading a remote database (\<open>App\<close>)\<close>

text \<open>
  The state the component keeps with \<open>useState\<close>. The setters are applied in the order
  the code calls them.
\<close>

record AppState =
  fetchError :: "string option"
  showDialog :: bool
  urlToFetch :: "string option"
  isFetching :: bool

text \<open>
  The browser and the store, as parameters: \<open>fetch(url)\<close> rejects or resolves to a
  response with its \<open>ok\<close> flag and its \<open>blob()\<close> (which may reject too);
  \<open>loadDatabase(file)\<close> of the store resolves or rejects; \<open>encodeURIComponent\<close> is
  the built-in.
\<close>

record Response =
  ok :: bool
  blob :: "thrown + bytes"

record Browser =
  fetch :: "string \<Rightarrow> thrown + Response"
  loadDatabase :: "bytes \<Rightarrow> thrown option"
  encodeURIComponent :: "string \<Rightarrow> string"

definition fetchUrl :: "Browser \<Rightarrow> string \<Rightarrow> bool \<Rightarrow> string" where
  "fetchUrl B url useProxy =
     (if useProxy then ''https://corsproxy.io/?'' @ encodeURIComponent B url else url)"

text \<open>The \<open>try\<close> block after \<open>setIsFetching(true)\<close>: \<open>None\<close> when it ran to its end
  (the database is loaded), the exception otherwise.\<close>

definition fetch_try :: "Browser \<Rightarrow> string \<Rightarrow> bool \<Rightarrow> thrown option" where
  "fetch_try B url useProxy =
     (case fetch B (fetchUrl B url useProxy) of
        Inl e \<Rightarrow> Some e
      | Inr response \<Rightarrow>
          if \<not> ok response then Some (Error ''URL not found or invalid'')
          else (case blob response of
                  Inl e \<Rightarrow> Some e
                | Inr b \<Rightarrow> loadDatabase B b))"

text \<open>\<open>error instanceof Error ? error.message : String(error)\<close>.\<close>

fun error_text :: "thrown \<Rightarrow> string" where
  "error_text (Error m) = m"
| "error_text (CustomQueryError m) = m"
| "error_text (NonError s) = s"

text \<open>
  \<open>fetchDatabase(url, useProxy)\<close>: the state it leaves and the URLs it fetched. A
  failed direct attempt stores the URL and opens the dialog; a failed proxy attempt
  sets the error text.
\<close>

definition fetchDatabase :: "Browser \<Rightarrow> AppState \<Rightarrow> string \<Rightarrow> bool \<Rightarrow> AppState \<times> string list" where
  "fetchDatabase B st url useProxy =
     (let st1 = st\<lparr>isFetching := True\<rparr>;
          st2 = (case fetch_try B url useProxy of
                   None \<Rightarrow> st1\<lparr>fetchError := None\<rparr>
                 | Some error \<Rightarrow>
                     if \<not> useProxy
                     then st1\<lparr>urlToFetch := Some url, showDialog := True\<rparr>
                     else st1\<lparr>fetchError := Some (''Error whilefetching, '' @ error_text error)\<rparr>)
      in (st2\<lparr>isFetching := False\<rparr>, [fetchUrl B url useProxy]))"

text \<open>
  \<open>handleRetryWithProxy\<close>, the dialog's confirm action: when a URL is stored (and is a
  non-empty string, as the truthiness test asks), one \<open>fetchDatabase(urlToFetch, true)\<close>
  and \<open>setShowDialog(false)\<close>. The proxy attempt never writes \<open>showDialog\<close>, so the
  order of the two does not show in the state left.
\<close>

definition handleRetryWithProxy :: "Browser \<Rightarrow> AppState \<Rightarrow> AppState \<times> string list" where
  "handleRetryWithProxy B st =
     (case urlToFetch st of
        None \<Rightarrow> (st, [])
      | Some u \<Rightarrow>
          if u = [] then (st, [])
          else (case fetchDatabase B st u True of
                  (st', fetched) \<Rightarrow> (st'\<lparr>showDialog := False\<rparr>, fetched)))"

text \<open>
  One load of a remote URL: the direct attempt, then, if the dialog is open and the user
  confirms it, the retry. The result is the final state and every URL fetched, in order.
\<close>

definition load_remote :: "Browser \<Rightarrow> AppState \<Rightarrow> string \<Rightarrow> bool \<Rightarrow> AppState \<times> string list" where
  "load_remote B st url confirmed =
     (case fetchDatabase B st url False of
        (st1, fetched1) \<Rightarrow>
          if showDialog st1 \<and> confirmed
          then (case handleRetryWithProxy B st1 of
                  (st2, fetched2) \<Rightarrow> (st2, fetched1 @ fetched2))
          else (st1, fetched1))"

definition initial_state :: AppState where
  "initial_state = \<lparr>fetchError = None, showDialog = False, urlToFetch = None, isFetching = False\<rparr>"

section \<open>Notions the properties are stated with\<close>

text \<open>The column names that \<open>PRAGMA table_info\<close> reports (the keys of \<open>row[1]\<close>), and
  the columns that \<open>PRAGMA foreign_key_list\<close> names (the keys of \<open>row[3]\<close> in its first
  result set; none when it returns no result set).\<close>

definition column_names :: "QueryExecResult \<Rightarrow> string set" where
  "column_names ti = set (map (\<lambda>row. String_js (index_js row 1)) (qvalues ti))"

definition foreign_key_columns :: "QueryExecResult list \<Rightarrow> string set" where
  "foreign_key_columns fks =
     (case fks of [] \<Rightarrow> {} | fk # _ \<Rightarrow> set (map (\<lambda>row. String_js (index_js row 3)) (qvalues fk)))"

text \<open>A schema with the entries of the given columns marked as foreign keys.\<close>

definition marked_entries :: "TableSchema \<Rightarrow> string set \<Rightarrow> TableSchema" where
  "marked_entries s names =
     s\<lparr>entries := (\<lambda>c. case entries s c of
                         None \<Rightarrow> None
                       | Some x \<Rightarrow> Some (if c \<in> names then x\<lparr>isForeignKey := True\<rparr> else x))\<rparr>"

text \<open>A row as the zip of the column names with a value tuple: a plain object whose
  own properties pair each name with the value at its position (a repeated name keeps
  the value of its last position), under the untouched prototype.\<close>

definition plain_row :: "string list \<Rightarrow> sqlvalue list \<Rightarrow> TableRow" where
  "plain_row cols vals =
     \<lparr>own = map_of (rev (zip cols (map (index_js vals) [0 ..< length cols]))),
      proto = ObjectPrototype\<rparr>"

text \<open>A CSV field as the specification words it: wrapped in double quotes, every
  embedded double quote doubled.\<close>

definition double_quotes :: "string \<Rightarrow> string" where
  "double_quotes s = concat (map (\<lambda>c. if c = CHR 0x22 then [c, c] else [c]) s)"

definition quoted_field :: "string \<Rightarrow> string" where
  "quoted_field s = dquote @ double_quotes s @ dquote"

text \<open>The CSV text of a result set, read off its value tuples: the column names joined
  by commas, then one line per tuple, each cell printed by \<open>String\<close> and put between
  double quotes as it is.\<close>

definition csv_text :: "QueryExecResult \<Rightarrow> string" where
  "csv_text r =
     join newline
       (join '','' (qcolumns r) #
        map (\<lambda>vals. join '','' (map (\<lambda>i. dquote @ String_js (index_js vals i) @ dquote)
                                  [0 ..< length (qcolumns r)]))
          (qvalues r))"


definition is_exec :: "('f, 's) WorkerEvent \<Rightarrow> bool" where
  "is_exec ev = (case ev of Exec q t l off f s \<Rightarrow> True | _ \<Rightarrow> False)"

text \<open>What the effect of a command threw on a ready handler: for \<open>exec\<close> what left the
  inner \<open>try\<close> block, for the other commands what left their case of the \<open>switch\<close>.\<close>

definition thrown_in_effect ::
  "('db, 'ts, 'is, 'row, 'f, 's) Sqlite \<Rightarrow> 'db \<Rightarrow> ('f, 's) WorkerEvent \<Rightarrow> thrown option" where
  "thrown_in_effect S db ev =
     (case ev of
        Exec q t l off f s \<Rightarrow> escaped (exec_try S db q t l off f s)
      | _ \<Rightarrow> escaped (switch S db ev))"

definition proxy_url :: "Browser \<Rightarrow> string \<Rightarrow> string" where
  "proxy_url B url = ''https://corsproxy.io/?'' @ encodeURIComponent B url"

section \<open>Concrete databases, engines and browsers\<close>

text \<open>A runtime record for the concrete inputs below. None of them puts a
  \<open>Uint8Array\<close> under a column named \<open>__proto__\<close> or reads a property that a row does not
  own, so neither field is consulted.\<close>

definition plain_runtime :: runtime where
  "plain_runtime = \<lparr>array_proto_set = (\<lambda>bs k. DefinesOwn), inherited_text = (\<lambda>p k. ''undefined'')\<rparr>"

text \<open>A database with one table \<open>orders\<close>, whose column \<open>user_id\<close> is a foreign key.\<close>

definition demo_db :: Database where
  "demo_db sql =
     (if sql = table_info_query ''orders''
      then Inr [\<lparr>qcolumns = [''cid'', ''name'', ''type'', ''notnull'', ''dflt_value'', ''pk''],
                qvalues = [[SqlNum ''0'', SqlStr ''id'', SqlStr ''INTEGER'', SqlNum ''0'', SqlNull, SqlNum ''1''],
                           [SqlNum ''1'', SqlStr ''user_id'', SqlStr ''INTEGER'', SqlNum ''0'', SqlNull, SqlNum ''0'']]\<rparr>]
      else if sql = foreign_key_list_query ''orders''
      then Inr [\<lparr>qcolumns = [''id'', ''seq'', ''table'', ''from'', ''to'', ''on_update'', ''on_delete'', ''match''],
                qvalues = [[SqlNum ''0'', SqlNum ''0'', SqlStr ''users'', SqlStr ''user_id'', SqlStr ''id'',
                            SqlStr ''NO ACTION'', SqlStr ''NO ACTION'', SqlStr ''NONE'']]\<rparr>]
      else Inl (Error ''no such table''))"

text \<open>A database with one table \<open>t\<close>, created by
  \<open>CREATE TABLE t(id INTEGER PRIMARY KEY, "__proto__" TEXT)\<close>, without foreign keys.\<close>

definition proto_table_info :: QueryExecResult where
  "proto_table_info =
     \<lparr>qcolumns = [''cid'', ''name'', ''type'', ''notnull'', ''dflt_value'', ''pk''],
      qvalues = [[SqlNum ''0'', SqlStr ''id'', SqlStr ''INTEGER'', SqlNum ''0'', SqlNull, SqlNum ''1''],
                 [SqlNum ''1'', SqlStr ''__proto__'', SqlStr ''TEXT'', SqlNum ''0'', SqlNull, SqlNum ''0'']]\<rparr>"

definition proto_db :: Database where
  "proto_db sql =
     (if sql = table_info_query ''t'' then Inr [proto_table_info]
      else if sql = foreign_key_list_query ''t'' then Inr []
      else Inl (Error ''no such table''))"

text \<open>A database that lists two tables: \<open>gone\<close>, whose \<open>SELECT\<close> returns no result
  set, and \<open>items\<close> with two rows.\<close>

definition shop_db :: Database where
  "shop_db sql =
     (if sql = table_names_query
      then Inr [\<lparr>qcolumns = [''name''], qvalues = [[SqlStr ''gone''], [SqlStr ''items'']]\<rparr>]
      else if sql = ''SELECT * FROM items''
      then Inr [\<lparr>qcolumns = [''id'', ''label''],
                qvalues = [[SqlNum ''1'', SqlStr ''nut''], [SqlNum ''2'', SqlNull]]\<rparr>]
      else if sql = ''SELECT * FROM gone''
      then Inr []
      else Inl (Error ''near: syntax error''))"

text \<open>An engine answer of two result sets, as two statements in one \<open>exec\<close> give.\<close>

definition first_set :: QueryExecResult where
  "first_set = \<lparr>qcolumns = [''name'', ''n''], qvalues = [[SqlStr ''items'', SqlNum ''2'']]\<rparr>"

definition second_set :: QueryExecResult where
  "second_set = \<lparr>qcolumns = [''other''], qvalues = [[SqlStr ''x''], [SqlStr ''y'']]\<rparr>"

definition two_sets_db :: Database where
  "two_sets_db sql = Inr [first_set, second_set]"

definition save_ok :: saver where
  "save_ok content name = None"

text \<open>An engine with one table \<open>t\<close>: \<open>CREATE TABLE u(x)\<close> changes the schema,
  \<open>SELECT 1\<close> returns a row, \<open>DELETE FROM t WHERE 0\<close> returns nothing, \<open>raise\<close>
  throws a value that is not an \<open>Error\<close>, any other statement is a syntax error.\<close>

definition demo_sqlite :: "(nat, string list, string list, string, unit, unit) Sqlite" where
  "demo_sqlite =
     \<lparr>create = Inr 0,
      openFile = (\<lambda>file. Inr 1),
      tablesSchema = (\<lambda>db. if db < 2 then [''t''] else [''t'', ''u'']),
      indexesSchema = (\<lambda>db. []),
      firstTable = (\<lambda>db. Some ''t''),
      getTableData = (\<lambda>db table limit offset filters sorters.
         if table = ''t'' then (db, Inr ([''row 1''], 1))
         else (db, Inl (Error (''no such table: '' @ table)))),
      exec = (\<lambda>db query.
         if query = ''DELETE FROM t WHERE 0'' then (db, Inr ([], False))
         else if query = ''SELECT 1'' then (db, Inr ([''1''], False))
         else if query = ''CREATE TABLE u(x)'' then (2, Inr ([], True))
         else if query = ''raise'' then (db, Inl (NonError ''42''))
         else (db, Inl (Error ''syntax error''))),
      download = (\<lambda>db. (db, Inr [83, 81, 76])),
      update = (\<lambda>db table cols vals primaryValue. (db, None)),
      delete = (\<lambda>db table primaryValue. (db, Some (NonError ''busy''))),
      insert_row = (\<lambda>db table cols vals. (db, Some (Error ''constraint failed''))),
      getTableAsCsv = (\<lambda>db table. (db, Inr ''x'')),
      getCurrentDataAsCsv = (\<lambda>db table limit offset filters sorters. (db, Inr ''x''))\<rparr>"

text \<open>The same engine when \<open>Sqlite.create()\<close> rejects.\<close>

definition offline_sqlite :: "(nat, string list, string list, string, unit, unit) Sqlite" where
  "offline_sqlite = demo_sqlite\<lparr>create := Inl (Error ''failed to load the engine'')\<rparr>"

text \<open>A browser whose direct fetch is rejected and whose proxy answers with a status
  that is not ok; and one whose every fetch is answered with such a status.\<close>

definition cors_browser :: Browser where
  "cors_browser =
     \<lparr>fetch = (\<lambda>u. if u = ''https://example.org/db.sqlite''
                     then Inl (Error ''Failed to fetch'')
                     else Inr \<lparr>ok = False, blob = Inr []\<rparr>),
      loadDatabase = (\<lambda>file. None),
      encodeURIComponent = (\<lambda>u. ''https%3A%2F%2Fexample.org%2Fdb.sqlite'')\<rparr>"

definition missing_browser :: Browser where
  "missing_browser =
     \<lparr>fetch = (\<lambda>u. Inr \<lparr>ok = False, blob = Inr []\<rparr>),
      loadDatabase = (\<lambda>file. None),
      encodeURIComponent = (\<lambda>u. u)\<rparr>"

section \<open>Lemmas on the row objects and the schema\<close>

lemma assign_plain:
  "proto acc = ObjectPrototype \<Longrightarrow> col \<noteq> ''__proto__'' \<Longrightarrow> assign R acc col v = Inr (define_own acc col v)"
  by (simp add: assign_def split: option.splits)

lemma assign_all_plain:
  "proto acc = ObjectPrototype \<Longrightarrow> ''__proto__'' \<notin> fst ` set kvs \<Longrightarrow>
   assign_all R acc kvs = Inr \<lparr>own = own acc ++ map_of (rev kvs), proto = ObjectPrototype\<rparr>"
proof (induction kvs arbitrary: acc)
  case Nil
  then show ?case by simp
next
  case (Cons kv kvs)
  obtain col v where kv: "kv = (col, v)" by (cases kv)
  from Cons.prems(2) kv have col: "col \<noteq> ''__proto__''" and rest: "''__proto__'' \<notin> fst ` set kvs"
    by auto
  have step: "assign R acc col v = Inr (define_own acc col v)"
    using Cons.prems(1) col by (rule assign_plain)
  have p: "proto (define_own acc col v) = ObjectPrototype"
    using Cons.prems(1) by (simp add: define_own_def)
  have "assign_all R (define_own acc col v) kvs
          = Inr \<lparr>own = own (define_own acc col v) ++ map_of (rev kvs), proto = ObjectPrototype\<rparr>"
    using p rest by (rule Cons.IH)
  moreover have "own (define_own acc col v) ++ map_of (rev kvs) = own acc ++ map_of (rev (kv # kvs))"
    by (simp add: define_own_def kv map_add_def fun_eq_iff split: option.splits)
  ultimately show ?case by (simp add: kv step)
qed

lemma row_object_plain:
  assumes "''__proto__'' \<notin> set cols"
  shows "row_object R cols vals = Inr (plain_row cols vals)"
proof -
  let ?kvs = "zip cols (map (index_js vals) [0 ..< length cols])"
  have "fst ` set ?kvs \<subseteq> set cols"
    by (auto dest: set_zip_leftD)
  with assms have "''__proto__'' \<notin> fst ` set ?kvs" by blast
  then have "assign_all R empty_object ?kvs
      = Inr \<lparr>own = own empty_object ++ map_of (rev ?kvs), proto = ObjectPrototype\<rparr>"
    by (intro assign_all_plain) (simp_all add: empty_object_def)
  then show ?thesis by (simp add: row_object_def plain_row_def empty_object_def)
qed

lemma map_throwing_Inr:
  "(\<And>x. x \<in> set xs \<Longrightarrow> f x = Inr (g x)) \<Longrightarrow> map_throwing f xs = Inr (map g xs)"
  by (induction xs) simp_all

lemma mapQueryResults_plain:
  assumes "''__proto__'' \<notin> set (qcolumns r)"
  shows "mapQueryResults R (r # rs)
           = Inr \<lparr>data = map (plain_row (qcolumns r)) (qvalues r), columns = qcolumns r\<rparr>"
proof -
  have "map_throwing (row_object R (qcolumns r)) (qvalues r)
          = Inr (map (plain_row (qcolumns r)) (qvalues r))"
    by (rule map_throwing_Inr) (rule row_object_plain [OF assms])
  then show ?thesis by (simp add: mapQueryResults_def)
qed

lemma plain_row_snoc:
  "own (plain_row (cols @ [c]) vals) = (own (plain_row cols vals))(c \<mapsto> index_js vals (length cols))"
  by (simp add: plain_row_def)

lemma dom_plain_row: "dom (own (plain_row cols vals)) = set cols"
proof (induction cols rule: rev_induct)
  case Nil
  show ?case by (simp add: plain_row_def)
next
  case (snoc c cols)
  have "dom (own (plain_row (cols @ [c]) vals)) = insert c (dom (own (plain_row cols vals)))"
    unfolding plain_row_snoc by simp
  then show ?case using snoc by simp
qed

lemma plain_row_last_occurrence:
  "i < length cols \<Longrightarrow> (\<forall>k. i < k \<and> k < length cols \<longrightarrow> cols ! k \<noteq> cols ! i)
     \<Longrightarrow> own (plain_row cols vals) (cols ! i) = Some (index_js vals i)"
proof (induction cols rule: rev_induct)
  case Nil
  then show ?case by simp
next
  case (snoc c cols)
  show ?case
  proof (cases "i = length cols")
    case True
    then show ?thesis by (simp add: plain_row_snoc)
  next
    case False
    with snoc.prems have i: "i < length cols" by simp
    from snoc.prems(2) i have "(cols @ [c]) ! length cols \<noteq> (cols @ [c]) ! i"
      by (metis length_append_singleton lessI)
    then have ne: "c \<noteq> cols ! i" using i by (simp add: nth_append)
    have later: "\<forall>k. i < k \<and> k < length cols \<longrightarrow> cols ! k \<noteq> cols ! i"
    proof (intro allI impI)
      fix k assume k: "i < k \<and> k < length cols"
      then have "(cols @ [c]) ! k \<noteq> (cols @ [c]) ! i"
        using snoc.prems(2) by (metis length_append_singleton less_Suc_eq)
      then show "cols ! k \<noteq> cols ! i" using k i by (simp add: nth_append)
    qed
    have "own (plain_row cols vals) (cols ! i) = Some (index_js vals i)"
      using snoc.IH [OF i later] .
    then show ?thesis using ne i by (simp add: plain_row_snoc nth_append)
  qed
qed

lemma prop_text_plain_row_distinct:
  assumes d: "distinct cols" and i: "i < length cols"
  shows "prop_text R (plain_row cols vals) (cols ! i) = String_js (index_js vals i)"
proof -
  have "\<forall>k. i < k \<and> k < length cols \<longrightarrow> cols ! k \<noteq> cols ! i"
    using d i by (auto simp: nth_eq_iff_index_eq)
  with i have "own (plain_row cols vals) (cols ! i) = Some (index_js vals i)"
    by (rule plain_row_last_occurrence)
  then show ?thesis by (simp add: prop_text_def)
qed

lemma map_cols_index:
  "distinct cols \<Longrightarrow> map (\<lambda>col. f (prop_text R (plain_row cols vals) col)) cols
     = map (\<lambda>i. f (String_js (index_js vals i))) [0 ..< length cols]"
  by (rule nth_equalityI) (simp_all add: prop_text_plain_row_distinct)

lemma arrayToCSV_plain:
  assumes "distinct (qcolumns r)"
  shows "arrayToCSV R (qcolumns r) (map (plain_row (qcolumns r)) (qvalues r)) = csv_text r"
proof -
  have "\<And>x. map (\<lambda>col. dquote @ prop_text R (plain_row (qcolumns r) x) col @ dquote) (qcolumns r)
      = map (\<lambda>i. dquote @ String_js (index_js x i) @ dquote) [0 ..< length (qcolumns r)]"
    using map_cols_index [OF assms, where f = "\<lambda>t. dquote @ t @ dquote"] by simp
  then show ?thesis
    by (simp add: arrayToCSV_def csv_text_def o_def)
qed

lemma table_info_step_plain:
  "String_js (index_js row 1) \<noteq> ''__proto__'' \<Longrightarrow>
   table_info_step acc row =
     acc\<lparr>entries := (entries acc)(String_js (index_js row 1) \<mapsto>
            \<lparr>type = index_js row 2, isPrimaryKey = (index_js row 5 = Val (SqlNum ''1'')),
             isForeignKey = False\<rparr>)\<rparr>"
  by (simp add: table_info_step_def Let_def split: option.splits)

lemma table_info_fold_plain:
  "''__proto__'' \<notin> set (map (\<lambda>row. String_js (index_js row 1)) rows) \<Longrightarrow>
   dom (entries (foldl table_info_step acc rows))
     = dom (entries acc) \<union> set (map (\<lambda>row. String_js (index_js row 1)) rows)
   \<and> inherits (foldl table_info_step acc rows) = inherits acc"
proof (induction rows arbitrary: acc)
  case Nil
  then show ?case by simp
next
  case (Cons row rows)
  from Cons.prems have k: "String_js (index_js row 1) \<noteq> ''__proto__''"
    and rest: "''__proto__'' \<notin> set (map (\<lambda>row. String_js (index_js row 1)) rows)"
    by auto
  show ?case
    using Cons.IH [OF rest, of "table_info_step acc row"]
    by (auto simp: table_info_step_plain [OF k])
qed

lemma table_info_step_not_fk:
  "(\<And>c x. entries acc c = Some x \<Longrightarrow> \<not> isForeignKey x) \<Longrightarrow>
   entries (table_info_step acc row) c = Some x \<Longrightarrow> \<not> isForeignKey x"
  by (auto simp: table_info_step_def Let_def split: option.splits if_splits)

lemma table_info_fold_not_fk:
  "(\<And>c x. entries acc c = Some x \<Longrightarrow> \<not> isForeignKey x) \<Longrightarrow>
   entries (foldl table_info_step acc rows) c = Some x \<Longrightarrow> \<not> isForeignKey x"
proof (induction rows arbitrary: acc)
  case Nil
  then show ?case by simp
next
  case (Cons row rows)
  have step: "\<And>c x. entries (table_info_step acc row) c = Some x \<Longrightarrow> \<not> isForeignKey x"
    using Cons.prems(1) by (rule table_info_step_not_fk)
  from Cons.prems(2) have "entries (foldl table_info_step (table_info_step acc row) rows) c = Some x"
    by simp
  with step show ?case by (rule Cons.IH)
qed

lemma foreign_key_forEach_own:
  "set (map (\<lambda>row. String_js (index_js row 3)) rows) \<subseteq> dom (entries s) \<Longrightarrow>
   foreign_key_forEach s rows
     = Inr (marked_entries s (set (map (\<lambda>row. String_js (index_js row 3)) rows)))"
proof (induction rows arbitrary: s)
  case Nil
  show ?case by (simp add: marked_entries_def fun_eq_iff split: option.splits)
next
  case (Cons row rows)
  let ?k = "String_js (index_js row 3)"
  from Cons.prems obtain c where c: "entries s ?k = Some c" by auto
  let ?s = "s\<lparr>entries := (entries s)(?k \<mapsto> c\<lparr>isForeignKey := True\<rparr>)\<rparr>"
  have step: "foreign_key_step s row = Inr ?s"
    using c by (simp add: foreign_key_step_def Let_def)
  have "set (map (\<lambda>row. String_js (index_js row 3)) rows) \<subseteq> dom (entries ?s)"
    using Cons.prems by auto
  then have "foreign_key_forEach ?s rows
      = Inr (marked_entries ?s (set (map (\<lambda>row. String_js (index_js row 3)) rows)))"
    by (rule Cons.IH)
  moreover have "marked_entries ?s (set (map (\<lambda>row. String_js (index_js row 3)) rows))
      = marked_entries s (set (map (\<lambda>row. String_js (index_js row 3)) (row # rows)))"
    using c by (auto simp: marked_entries_def fun_eq_iff split: option.splits)
  ultimately show ?case by (simp add: step)
qed

text \<open>For a table without a column named \<open>__proto__\<close> (and foreign keys on its own
  columns, as the engine reports them), the schema has an entry for exactly the columns
  that \<open>table_info\<close> reports, marked as a foreign key exactly when
  \<open>foreign_key_list\<close> names the column.\<close>

lemma getTableSchema_other_columns:
  assumes ti: "database (table_info_query tableName) = Inr (ti # tis)"
    and fk: "database (foreign_key_list_query tableName) = Inr fks"
    and plain: "''__proto__'' \<notin> column_names ti"
    and sub: "foreign_key_columns fks \<subseteq> column_names ti"
  shows "\<exists>schema. fst (getTableSchema database tableName) = Inr schema
           \<and> dom (entries schema) = column_names ti
           \<and> (\<forall>c \<in> column_names ti. \<exists>x. entries schema c = Some x
                  \<and> isForeignKey x = (c \<in> foreign_key_columns fks))"
proof -
  let ?base = "foldl table_info_step empty_schema (qvalues ti)"
  have dom_base: "dom (entries ?base) = column_names ti"
    using table_info_fold_plain [of "qvalues ti" empty_schema] plain
    by (simp add: column_names_def empty_schema_def)
  have nofk: "\<And>c x. entries ?base c = Some x \<Longrightarrow> \<not> isForeignKey x"
    by (rule table_info_fold_not_fk [of empty_schema]) (simp_all add: empty_schema_def)
  show ?thesis
  proof (cases fks)
    case Nil
    then have r: "fst (getTableSchema database tableName) = Inr ?base"
      using ti fk by (simp add: getTableSchema_def getTableSchema_body_def)
    have "\<forall>c \<in> column_names ti. \<exists>x. entries ?base c = Some x \<and> isForeignKey x = (c \<in> foreign_key_columns fks)"
    proof
      fix c assume "c \<in> column_names ti"
      then obtain x where x: "entries ?base c = Some x" using dom_base by auto
      then have "\<not> isForeignKey x" by (rule nofk)
      then show "\<exists>y. entries ?base c = Some y \<and> isForeignKey y = (c \<in> foreign_key_columns fks)"
        using x Nil by (simp add: foreign_key_columns_def)
    qed
    with r dom_base show ?thesis by blast
  next
    case (Cons f rest)
    let ?names = "set (map (\<lambda>row. String_js (index_js row 3)) (qvalues f))"
    have names: "foreign_key_columns fks = ?names"
      using Cons by (simp add: foreign_key_columns_def)
    let ?s = "marked_entries ?base ?names"
    have "?names \<subseteq> dom (entries ?base)"
      using sub names dom_base by simp
    then have "foreign_key_forEach ?base (qvalues f) = Inr ?s"
      by (rule foreign_key_forEach_own)
    then have r: "fst (getTableSchema database tableName) = Inr ?s"
      using ti fk Cons by (simp add: getTableSchema_def getTableSchema_body_def)
    have d: "dom (entries ?s) = column_names ti"
      using dom_base by (auto simp: marked_entries_def dom_def split: option.splits)
    have "\<forall>c \<in> column_names ti. \<exists>x. entries ?s c = Some x \<and> isForeignKey x = (c \<in> foreign_key_columns fks)"
    proof
      fix c assume "c \<in> column_names ti"
      then obtain x where x: "entries ?base c = Some x" using dom_base by auto
      then have "\<not> isForeignKey x" by (rule nofk)
      then show "\<exists>y. entries ?s c = Some y \<and> isForeignKey y = (c \<in> foreign_key_columns fks)"
        using x names by (simp add: marked_entries_def)
    qed
    with r d show ?thesis by blast
  qed
qed

lemma demo_db_table_info:
  "demo_db (table_info_query ''orders'') =
     Inr [\<lparr>qcolumns = [''cid'', ''name'', ''type'', ''notnull'', ''dflt_value'', ''pk''],
                qvalues = [[SqlNum ''0'', SqlStr ''id'', SqlStr ''INTEGER'', SqlNum ''0'', SqlNull, SqlNum ''1''],
                           [SqlNum ''1'', SqlStr ''user_id'', SqlStr ''INTEGER'', SqlNum ''0'', SqlNull, SqlNum ''0'']]\<rparr>]"
  by (simp add: demo_db_def)

lemma demo_db_foreign_keys:
  "demo_db (foreign_key_list_query ''orders'') =
     Inr [\<lparr>qcolumns = [''id'', ''seq'', ''table'', ''from'', ''to'', ''on_update'', ''on_delete'', ''match''],
                qvalues = [[SqlNum ''0'', SqlNum ''0'', SqlStr ''users'', SqlStr ''user_id'', SqlStr ''id'',
                            SqlStr ''NO ACTION'', SqlStr ''NO ACTION'', SqlStr ''NONE'']]\<rparr>]"
  by (simp add: demo_db_def table_info_query_def foreign_key_list_query_def)

text \<open>The table \<open>orders\<close>: both columns have their entry, and \<open>user_id\<close> alone is
  marked as a foreign key.\<close>

lemma getTableSchema_orders:
  "\<exists>schema. fst (getTableSchema demo_db ''orders'') = Inr schema
      \<and> dom (entries schema) = {''id'', ''user_id''}
      \<and> (\<exists>x. entries schema ''id'' = Some x \<and> \<not> isForeignKey x)
      \<and> (\<exists>x. entries schema ''user_id'' = Some x \<and> isForeignKey x)"
  using getTableSchema_other_columns [OF demo_db_table_info demo_db_foreign_keys]
  by (simp add: column_names_def foreign_key_columns_def index_js_def)

lemma proto_db_table_info: "proto_db (table_info_query ''t'') = Inr [proto_table_info]"
  by (simp add: proto_db_def)

lemma proto_db_foreign_keys: "proto_db (foreign_key_list_query ''t'') = Inr []"
  by (simp add: proto_db_def table_info_query_def foreign_key_list_query_def)




lemma shop_items:
  "shop_db ''SELECT * FROM items'' =
     Inr [\<lparr>qcolumns = [''id'', ''label''],
           qvalues = [[SqlNum ''1'', SqlStr ''nut''], [SqlNum ''2'', SqlNull]]\<rparr>]"
  by (simp add: shop_db_def table_names_query_def)

text \<open>The reserved key at work: with the columns \<open>__proto__\<close> and \<open>x\<close> the row owns
  \<open>x\<close> only, and the CSV field of \<open>__proto__\<close> is the text of \<open>Object.prototype\<close>.\<close>

lemma reserved_key_row:
  "mapQueryResults plain_runtime [\<lparr>qcolumns = [''__proto__'', ''x''], qvalues = [[SqlStr ''p'', SqlStr ''v'']]\<rparr>]
     = Inr \<lparr>data = [\<lparr>own = [''x'' \<mapsto> Val (SqlStr ''v'')], proto = ObjectPrototype\<rparr>],
            columns = [''__proto__'', ''x'']\<rparr>
   \<and> arrayToCSV plain_runtime [''__proto__'', ''x'']
         [\<lparr>own = [''x'' \<mapsto> Val (SqlStr ''v'')], proto = ObjectPrototype\<rparr>]
       = ''__proto__,x'' @ newline @ dquote @ ''[object Object]'' @ dquote @ '','' @ dquote @ ''v'' @ dquote"
  by (simp add: mapQueryResults_def row_object_def assign_def define_own_def empty_object_def
        index_js_def arrayToCSV_def prop_text_def upt_rec [of 0] upt_rec [of 1])

section \<open>Lemmas on the handler\<close>

lemma exec_try_thrown:
  "escaped (exec_try S db q t l off f s) = Some e \<Longrightarrow> posted (exec_try S db q t l off f s) = []"
  by (auto simp: exec_try_def windowed_read_def escaped_def posted_def
        split: prod.splits sum.splits if_splits)

lemma switch_thrown:
  "\<not> is_exec ev \<Longrightarrow> escaped (switch S db ev) = Some e \<Longrightarrow> posted (switch S db ev) = []"
  by (cases ev)
     (auto simp: is_exec_def windowed_read_def mutation_def export_case_def escaped_def posted_def
           split: prod.splits sum.splits if_splits option.splits)

lemma onmessage_ready:
  "ev \<noteq> Init \<Longrightarrow>
   posted (onmessage S (Some db) ev) =
     posted (switch S db ev) @ (case escaped (switch S db ev) of None \<Rightarrow> [] | Some e \<Rightarrow> [queryError e])
   \<and> escaped (onmessage S (Some db) ev) = None"
  by (auto simp: onmessage_def posted_def escaped_def split: prod.splits option.splits)

section \<open>Facts about the concrete inputs\<close>

lemma cors_direct:
  "fetch_try cors_browser ''https://example.org/db.sqlite'' False = Some (Error ''Failed to fetch'')"
  by (simp add: fetch_try_def fetchUrl_def cors_browser_def)

lemma cors_proxy:
  "fetch_try cors_browser ''https://example.org/db.sqlite'' True = Some (Error ''URL not found or invalid'')"
  by (simp add: fetch_try_def fetchUrl_def cors_browser_def)

section \<open>The protocol handler\<close>

text \<open>
  C1, as stated: in the Uninitialized state the handler accepts \<open>init\<close> and \<open>openFile\<close>.
  It does not accept \<open>openFile\<close>: the null check stands before the \<open>switch\<close>, so an
  \<open>openFile\<close> that the engine would open is answered with the not-initialized error and
  the handler stays Uninitialized.
\<close>

theorem openFile_before_init_counterexample:
  "openFile demo_sqlite [83, 81, 76] = Inr 1
   \<and> onmessage demo_sqlite None (OpenFile [83, 81, 76])
       = (None, [QueryError ''Database is not initialized'' False], None)"
  by (simp add: onmessage_def demo_sqlite_def)

text \<open>
  C1, amended: in the Uninitialized state the handler accepts exactly \<open>init\<close>. Every
  other command, \<open>openFile\<close> included, is answered at once with one error response
  (message \<open>Database is not initialized\<close>, \<open>isCustomQueryError\<close> false) and the handler
  stays Uninitialized; an \<open>init\<close> whose \<open>Sqlite.create()\<close> resolves makes it Ready and
  is answered with \<open>initComplete\<close>.
\<close>

theorem uninitialized_accepts_only_init:
  "(ev \<noteq> Init \<longrightarrow>
      onmessage S None ev = (None, [QueryError ''Database is not initialized'' False], None))
   \<and> (create S = Inr db \<longrightarrow> onmessage S None Init = (Some db, [initComplete S db], None))"
  by (simp add: onmessage_def)

theorem uninitialized_accepts_only_init_witness:
  "(Download :: (unit, unit) WorkerEvent) \<noteq> Init
   \<and> onmessage demo_sqlite None Download = (None, [QueryError ''Database is not initialized'' False], None)
   \<and> create demo_sqlite = Inr 0
   \<and> onmessage demo_sqlite None Init = (Some 0, [InitComplete [''t''] [] (Some ''t'')], None)"
  using uninitialized_accepts_only_init [of Download demo_sqlite 0]
  by (simp add: demo_sqlite_def initComplete_def)

text \<open>
  C2: every command is answered with exactly one response. The handler at two inputs
  where it posts none: an \<open>init\<close> whose \<open>Sqlite.create()\<close> rejects (the \<open>init\<close> branch
  stands outside the \<open>try\<close>, so the exception leaves the handler), and an \<open>exec\<close>
  whose statement throws a value that is not an \<open>Error\<close> (the inner \<open>catch\<close> of \<open>exec\<close>
  rethrows only \<open>Error\<close> instances and drops the rest).
\<close>

theorem no_response_inputs:
  "onmessage offline_sqlite None Init = (None, [], Some (Error ''failed to load the engine''))
   \<and> onmessage demo_sqlite (Some 0) (Exec ''raise'' ''t'' 10 0 () ()) = (Some 0, [], None)"
  by (simp add: onmessage_def offline_sqlite_def demo_sqlite_def exec_case_def exec_try_def
        exec_catch_def)

text \<open>
  C3: an \<open>exec\<close> on a Ready handler whose statement ran: when it changed the table or
  index definitions the response is the schema snapshot (\<open>updateInstance\<close>) of the
  instance as the statement left it; otherwise, when it returned rows, the response is
  those rows (\<open>customQueryComplete\<close>); otherwise the handler reads the current table with
  the request's \<open>currentTable\<close>, \<open>limit\<close>, \<open>offset\<close>, \<open>filters\<close> and \<open>sorters\<close> and
  the response is the rows and \<open>maxSize\<close> of that read (\<open>queryComplete\<close>).
\<close>

theorem exec_response_routing:
  assumes "exec S db query = (db', Inr (results, doTablesChanged))"
  shows "(doTablesChanged \<longrightarrow>
            onmessage S (Some db) (Exec query currentTable limit offset filters sorters)
              = (Some db', [UpdateInstance (tablesSchema S db') (indexesSchema S db')], None))
       \<and> (\<not> doTablesChanged \<and> results \<noteq> [] \<longrightarrow>
            onmessage S (Some db) (Exec query currentTable limit offset filters sorters)
              = (Some db', [CustomQueryComplete results], None))
       \<and> (\<not> doTablesChanged \<and> results = []
            \<and> getTableData S db' currentTable limit offset filters sorters = (db'', Inr (rows, maxSize)) \<longrightarrow>
            onmessage S (Some db) (Exec query currentTable limit offset filters sorters)
              = (Some db'', [QueryComplete rows maxSize], None))"
  using assms by (simp add: onmessage_def exec_case_def exec_try_def windowed_read_def)

theorem exec_response_routing_witness:
  "onmessage demo_sqlite (Some 0) (Exec ''CREATE TABLE u(x)'' ''t'' 10 0 () ())
       = (Some 2, [UpdateInstance [''t'', ''u''] []], None)
   \<and> onmessage demo_sqlite (Some 0) (Exec ''SELECT 1'' ''t'' 10 0 () ())
       = (Some 0, [CustomQueryComplete [''1'']], None)
   \<and> onmessage demo_sqlite (Some 0) (Exec ''DELETE FROM t WHERE 0'' ''t'' 10 0 () ())
       = (Some 0, [QueryComplete [''row 1''] 1], None)"
  using exec_response_routing [of demo_sqlite 0 "''CREATE TABLE u(x)''" 2 "[]" True "''t''" 10 0 "()" "()"]
    exec_response_routing [of demo_sqlite 0 "''SELECT 1''" 0 "[''1'']" False "''t''" 10 0 "()" "()"]
    exec_response_routing [of demo_sqlite 0 "''DELETE FROM t WHERE 0''" 0 "[]" False "''t''" 10 0 "()" "()" 0 "[''row 1'']" 1]
  by (simp add: demo_sqlite_def)

text \<open>
  C4, as stated: \<open>isCustomQueryError\<close> is true only for a failure that came from the
  user's SQL. Here the user's statement runs without error and returns nothing, the
  fallback read of a table that does not exist throws, and the error response carries
  \<open>isCustomQueryError\<close> true: the inner \<open>try\<close> of \<open>exec\<close> spans the fallback read.
\<close>

theorem fallback_read_failure_counterexample:
  "exec demo_sqlite 0 ''DELETE FROM t WHERE 0'' = (0, Inr ([], False))
   \<and> getTableData demo_sqlite 0 ''gone'' 10 0 () () = (0, Inl (Error ''no such table: gone''))
   \<and> onmessage demo_sqlite (Some 0) (Exec ''DELETE FROM t WHERE 0'' ''gone'' 10 0 () ())
       = (Some 0, [QueryError ''no such table: gone'' True], None)"
  by (simp add: onmessage_def demo_sqlite_def exec_case_def exec_try_def exec_catch_def
        windowed_read_def queryError_def)

text \<open>
  C4, amended: on a Ready handler, a failure thrown during the effect of a command other
  than \<open>init\<close> that is an \<open>Error\<close> instance is caught and answered with exactly one
  error response, which carries the error's message and \<open>isCustomQueryError\<close>; that
  flag is true if and only if the command is \<open>exec\<close> (whichever step of \<open>exec\<close> threw)
  or the error is a \<open>CustomQueryError\<close>. For a command other than \<open>exec\<close>, a thrown
  value that is not an \<open>Error\<close> is answered with exactly one error response with the
  message \<open>Unknown error\<close> and the flag false.
\<close>

theorem failure_reported_once:
  assumes "ev \<noteq> Init" and "thrown_in_effect S db ev = Some e"
  shows "(instanceof_Error e \<longrightarrow>
            posted (onmessage S (Some db) ev)
              = [QueryError (message e) (is_exec ev \<or> instanceof_CustomQueryError e)]
            \<and> escaped (onmessage S (Some db) ev) = None)
       \<and> (\<not> instanceof_Error e \<and> \<not> is_exec ev \<longrightarrow>
            posted (onmessage S (Some db) ev) = [QueryError ''Unknown error'' False]
            \<and> escaped (onmessage S (Some db) ev) = None)"
proof (cases "is_exec ev")
  case True
  then obtain q t l off f s where ev: "ev = Exec q t l off f s"
    by (cases ev) (simp_all add: is_exec_def)
  with assms(2) have thr: "escaped (exec_try S db q t l off f s) = Some e"
    by (simp add: thrown_in_effect_def)
  then have none: "posted (exec_try S db q t l off f s) = []"
    by (rule exec_try_thrown)
  obtain i where tr: "exec_try S db q t l off f s = (i, [], Some e)"
    using thr none by (cases "exec_try S db q t l off f s") (simp add: escaped_def posted_def)
  show ?thesis
    using True
    by (cases e)
       (simp_all add: ev onmessage_def exec_case_def tr exec_catch_def queryError_def
          posted_def escaped_def)
next
  case False
  with assms(2) have thr: "escaped (switch S db ev) = Some e"
    by (cases ev) (simp_all add: thrown_in_effect_def is_exec_def)
  with False have none: "posted (switch S db ev) = []"
    by (rule switch_thrown)
  show ?thesis
    using False onmessage_ready [OF assms(1), of S db] thr none
    by (cases e) (simp_all add: queryError_def)
qed

theorem failure_reported_once_witness:
  "thrown_in_effect demo_sqlite 0 (Insert ''t'' [''x''] [SqlNum ''1''] :: (unit, unit) WorkerEvent)
       = Some (Error ''constraint failed'')
   \<and> posted (onmessage demo_sqlite (Some 0) (Insert ''t'' [''x''] [SqlNum ''1'']))
       = [QueryError ''constraint failed'' False]
   \<and> thrown_in_effect demo_sqlite 0 (Exec ''SELEKT'' ''t'' 10 0 () ()) = Some (Error ''syntax error'')
   \<and> posted (onmessage demo_sqlite (Some 0) (Exec ''SELEKT'' ''t'' 10 0 () ()))
       = [QueryError ''syntax error'' True]
   \<and> thrown_in_effect demo_sqlite 0 (Delete ''t'' (SqlNum ''1'') :: (unit, unit) WorkerEvent)
       = Some (NonError ''busy'')
   \<and> posted (onmessage demo_sqlite (Some 0) (Delete ''t'' (SqlNum ''1'')))
       = [QueryError ''Unknown error'' False]"
  using failure_reported_once [of "Insert ''t'' [''x''] [SqlNum ''1'']" demo_sqlite 0 "Error ''constraint failed''"]
    failure_reported_once [of "Exec ''SELEKT'' ''t'' 10 0 () ()" demo_sqlite 0 "Error ''syntax error''"]
    failure_reported_once [of "Delete ''t'' (SqlNum ''1'')" demo_sqlite 0 "NonError ''busy''"]
  by (simp add: thrown_in_effect_def is_exec_def escaped_def mutation_def exec_try_def demo_sqlite_def)

section \<open>The engine adapter of \<open>src/lib/sqlite.ts\<close>\<close>

text \<open>
  C5, as stated: every field is wrapped in double quotes with embedded double quotes
  doubled. \<open>arrayToCSV\<close> puts the cell between double quotes as it is: a cell that
  holds a double quote is written with that quote single.
\<close>

theorem embedded_quote_counterexample:
  "arrayToCSV plain_runtime [''note'']
       [\<lparr>own = [''note'' \<mapsto> Val (SqlStr (''say '' @ dquote @ ''hi'' @ dquote))], proto = ObjectPrototype\<rparr>]
     = ''note'' @ newline @ dquote @ ''say '' @ dquote @ ''hi'' @ dquote @ dquote
   \<and> dquote @ ''say '' @ dquote @ ''hi'' @ dquote @ dquote
       \<noteq> quoted_field (''say '' @ dquote @ ''hi'' @ dquote)"
  by (simp add: arrayToCSV_def prop_text_def quoted_field_def double_quotes_def dquote_def)

text \<open>
  C5, amended: for an exported table (its \<open>SELECT *\<close> returns a result set, whose column
  names are distinct and none of which is the reserved \<open>__proto__\<close>, and \<open>saveAs\<close>
  does not throw), the file saved is \<open><table>.csv\<close> and its text is a header row of
  the column names in the result set's order, joined by commas and not quoted, followed
  by one line per row, the fields joined by commas, every field being the \<open>String\<close>
  rendering of the cell (a number as JavaScript prints it, \<open>null\<close> as \<open>null\<close>, a
  \<open>Uint8Array\<close> as its bytes joined by commas) between double quotes with embedded
  double quotes left as they are, the lines joined by newlines.
\<close>

theorem exported_csv_format:
  assumes "database (''SELECT * FROM '' @ String_js tableName) = Inr (r # rs)"
    and "distinct (qcolumns r)"
    and "''__proto__'' \<notin> set (qcolumns r)"
    and "saveAs (csv_text r) (String_js tableName @ ''.csv'') = None"
  shows "export_try R saveAs database tableName
           = Inr (Saved (String_js tableName @ ''.csv'') (csv_text r))"
proof -
  have m: "mapQueryResults R (r # rs)
             = Inr \<lparr>data = map (plain_row (qcolumns r)) (qvalues r), columns = qcolumns r\<rparr>"
    using assms(3) by (rule mapQueryResults_plain)
  have "arrayToCSV R (qcolumns r) (map (plain_row (qcolumns r)) (qvalues r)) = csv_text r"
    using assms(2) by (rule arrayToCSV_plain)
  then show ?thesis
    using assms(1,4) m by (simp add: export_try_def Let_def)
qed

theorem exported_csv_format_witness:
  "shop_db ''SELECT * FROM items'' =
     Inr [\<lparr>qcolumns = [''id'', ''label''],
           qvalues = [[SqlNum ''1'', SqlStr ''nut''], [SqlNum ''2'', SqlNull]]\<rparr>]
   \<and> distinct [''id'', ''label'']
   \<and> ''__proto__'' \<notin> set [''id'', ''label'']
   \<and> export_try plain_runtime save_ok shop_db (Val (SqlStr ''items''))
       = Inr (Saved ''items.csv''
           (''id,label'' @ newline @ dquote @ ''1'' @ dquote @ '','' @ dquote @ ''nut'' @ dquote
             @ newline @ dquote @ ''2'' @ dquote @ '','' @ dquote @ ''null'' @ dquote))"
  using exported_csv_format [where database = shop_db and tableName = "Val (SqlStr ''items'')"
      and r = "\<lparr>qcolumns = [''id'', ''label''], qvalues = [[SqlNum ''1'', SqlStr ''nut''], [SqlNum ''2'', SqlNull]]\<rparr>"
      and rs = "[]" and saveAs = save_ok and R = plain_runtime]
  by (simp add: shop_items save_ok_def csv_text_def index_js_def
        upt_rec [of 0] upt_rec [of 1] dquote_def newline_def)

text \<open>
  C6: the schema has an entry for every column that \<open>PRAGMA table_info\<close> reports, none
  omitted. The code at a table with a column named \<open>__proto__\<close>: the assignment of that
  column's entry replaces the prototype of the schema object instead of adding a key, so
  the schema returned has the entry of \<open>id\<close> only.
\<close>

theorem proto_column_omitted:
  "column_names proto_table_info = {''id'', ''__proto__''}
   \<and> getTableSchema proto_db ''t'' =
       (Inr \<lparr>entries = [''id'' \<mapsto> \<lparr>type = Val (SqlStr ''INTEGER''), isPrimaryKey = True, isForeignKey = False\<rparr>],
             inherits = EntryPrototype \<lparr>type = Val (SqlStr ''TEXT''), isPrimaryKey = False, isForeignKey = False\<rparr>\<rparr>,
        [])"
  by (simp add: getTableSchema_def getTableSchema_body_def proto_db_table_info proto_db_foreign_keys
        proto_table_info_def column_names_def table_info_step_def empty_schema_def index_js_def Let_def)

text \<open>
  C7, as stated: each row maps the i-th column name to the i-th value. With a column
  name that occurs twice (as in a join of two tables that both have \<open>id\<close>), the row is
  one object keyed by name, and the first \<open>id\<close> is mapped to the second value.
\<close>

theorem duplicate_column_counterexample:
  "mapQueryResults plain_runtime [\<lparr>qcolumns = [''id'', ''id''], qvalues = [[SqlNum ''1'', SqlNum ''2'']]\<rparr>]
     = Inr \<lparr>data = [\<lparr>own = [''id'' \<mapsto> Val (SqlNum ''2'')], proto = ObjectPrototype\<rparr>],
            columns = [''id'', ''id'']\<rparr>
   \<and> [''id'', ''id''] ! 0 = ''id''
   \<and> index_js [SqlNum ''1'', SqlNum ''2''] 0 = Val (SqlNum ''1'')"
  by (simp add: mapQueryResults_def row_object_def assign_def define_own_def empty_object_def
        index_js_def upt_rec [of 0] upt_rec [of 1])

text \<open>
  C7, amended: for a non-empty list of result sets whose first result set has no column
  named \<open>__proto__\<close>, the columns returned are the first result set's column list in its
  order, there is one row per value tuple, the keys of each row are the column names,
  and the row maps the i-th column name to the i-th value of its tuple whenever no later
  column carries the same name (so for every column when the names are distinct; a
  repeated name keeps the value of its last occurrence). For an empty list both the row
  list and the column list are empty.
\<close>

theorem rows_zip_columns:
  assumes "''__proto__'' \<notin> set (qcolumns r)"
  shows "\<exists>m. mapQueryResults R (r # rs) = Inr m
     \<and> columns m = qcolumns r
     \<and> length (data m) = length (qvalues r)
     \<and> (j < length (qvalues r) \<longrightarrow>
          dom (own (data m ! j)) = set (qcolumns r) \<and> proto (data m ! j) = ObjectPrototype)
     \<and> (j < length (qvalues r) \<and> i < length (qcolumns r)
          \<and> (\<forall>k. i < k \<and> k < length (qcolumns r) \<longrightarrow> qcolumns r ! k \<noteq> qcolumns r ! i) \<longrightarrow>
          own (data m ! j) (qcolumns r ! i) = Some (index_js (qvalues r ! j) i))
     \<and> mapQueryResults R [] = Inr \<lparr>data = [], columns = []\<rparr>"
proof -
  let ?m = "\<lparr>data = map (plain_row (qcolumns r)) (qvalues r), columns = qcolumns r\<rparr>"
  have "mapQueryResults R (r # rs) = Inr ?m"
    using assms by (rule mapQueryResults_plain)
  moreover have "j < length (qvalues r) \<longrightarrow>
      dom (own (data ?m ! j)) = set (qcolumns r) \<and> proto (data ?m ! j) = ObjectPrototype"
    by (simp add: dom_plain_row) (simp add: plain_row_def)
  moreover have "j < length (qvalues r) \<and> i < length (qcolumns r)
          \<and> (\<forall>k. i < k \<and> k < length (qcolumns r) \<longrightarrow> qcolumns r ! k \<noteq> qcolumns r ! i) \<longrightarrow>
          own (data ?m ! j) (qcolumns r ! i) = Some (index_js (qvalues r ! j) i)"
    by (simp add: plain_row_last_occurrence)
  moreover have "mapQueryResults R [] = Inr \<lparr>data = [], columns = []\<rparr>"
    by (simp add: mapQueryResults_def)
  ultimately show ?thesis by simp
qed

theorem rows_zip_columns_witness:
  "''__proto__'' \<notin> set [''id'', ''label'']
   \<and> (\<exists>m. mapQueryResults plain_runtime
              [\<lparr>qcolumns = [''id'', ''label''], qvalues = [[SqlNum ''1'', SqlStr ''nut'']]\<rparr>] = Inr m
        \<and> columns m = [''id'', ''label'']
        \<and> length (data m) = 1
        \<and> own (data m ! 0) ''label'' = Some (Val (SqlStr ''nut'')))"
  using rows_zip_columns [of "\<lparr>qcolumns = [''id'', ''label''], qvalues = [[SqlNum ''1'', SqlStr ''nut'']]\<rparr>"
      plain_runtime "[]" 0 1]
  by (auto simp: index_js_def)



text \<open>
  C10: only the first result set is used. \<open>mapQueryResults\<close> returns for a list of
  result sets what it returns for the first one alone, and (no column being named
  \<open>__proto__\<close>) that is the first result set's column list and one row per value tuple
  of the first result set, the zip of its column names with the tuple; \<open>getTableNames\<close>
  returns the first cell of every value tuple of the first result set that the engine
  answers its query with. The later result sets appear in neither.
\<close>

theorem first_result_set_only:
  "mapQueryResults R (r # rs) = mapQueryResults R [r]
   \<and> (''__proto__'' \<notin> set (qcolumns r) \<longrightarrow>
        mapQueryResults R (r # rs)
          = Inr \<lparr>data = map (plain_row (qcolumns r)) (qvalues r), columns = qcolumns r\<rparr>)
   \<and> (database table_names_query = Inr (r # rs) \<longrightarrow>
        getTableNames database = (map (\<lambda>row. index_js row 0) (qvalues r), []))"
  by (simp add: mapQueryResults_plain) (simp add: mapQueryResults_def getTableNames_def)

theorem first_result_set_only_witness:
  "two_sets_db table_names_query = Inr [first_set, second_set]
   \<and> mapQueryResults plain_runtime [first_set, second_set]
       = Inr \<lparr>data = [\<lparr>own = [''name'' \<mapsto> Val (SqlStr ''items''), ''n'' \<mapsto> Val (SqlNum ''2'')],
                       proto = ObjectPrototype\<rparr>],
              columns = [''name'', ''n'']\<rparr>
   \<and> getTableNames two_sets_db = ([Val (SqlStr ''items'')], [])"
proof -
  note th = first_result_set_only [of plain_runtime first_set "[second_set]" two_sets_db]
  have a: "two_sets_db table_names_query = Inr [first_set, second_set]"
    by (simp add: two_sets_db_def)
  have p: "''__proto__'' \<notin> set (qcolumns first_set)"
    by (simp add: first_set_def)
  from th p have b: "mapQueryResults plain_runtime [first_set, second_set]
      = Inr \<lparr>data = map (plain_row (qcolumns first_set)) (qvalues first_set), columns = qcolumns first_set\<rparr>"
    by blast
  from th a have c: "getTableNames two_sets_db = (map (\<lambda>row. index_js row 0) (qvalues first_set), [])"
    by blast
  have d: "map (plain_row (qcolumns first_set)) (qvalues first_set)
      = [\<lparr>own = [''name'' \<mapsto> Val (SqlStr ''items''), ''n'' \<mapsto> Val (SqlNum ''2'')], proto = ObjectPrototype\<rparr>]"
    by (simp add: first_set_def plain_row_def index_js_def upt_rec [of 0] upt_rec [of 1])
  show ?thesis
    using a b c d by (simp add: first_set_def index_js_def)
qed

section \<open>Loading a remote database\<close>

text \<open>
  C8, as stated: an HTTP failure of the direct fetch does not trigger the retry through
  the proxy. It does: the response that is not \<open>ok\<close> throws inside the \<open>try\<close>, and the
  \<open>catch\<close> of the direct attempt stores the URL and opens the dialog.
\<close>

theorem http_failure_opens_dialog_counterexample:
  "fetch missing_browser ''https://example.org/none.sqlite'' = Inr \<lparr>ok = False, blob = Inr []\<rparr>
   \<and> fetchDatabase missing_browser initial_state ''https://example.org/none.sqlite'' False
       = (\<lparr>fetchError = None, showDialog = True,
           urlToFetch = Some ''https://example.org/none.sqlite'', isFetching = False\<rparr>,
          [''https://example.org/none.sqlite''])"
  by (simp add: fetchDatabase_def fetch_try_def fetchUrl_def missing_browser_def initial_state_def)

text \<open>
  C8, amended: any failure of the direct attempt (a rejected fetch, a response that is
  not ok, a failure reading or loading the file) stores the URL and opens the dialog;
  the dialog's confirm action fetches that same URL once through the proxy and closes
  the dialog; a failure of the proxy attempt is reported as the error text and the
  dialog stays closed; so one load fetches the URL directly and, only when that failed
  and the user confirmed, once more through the proxy.
\<close>

theorem remote_load_fallback:
  "(fetch_try B url False = Some e \<longrightarrow>
      fetchDatabase B st url False
        = (st\<lparr>urlToFetch := Some url, showDialog := True, isFetching := False\<rparr>, [url]))
   \<and> (url \<noteq> [] \<and> urlToFetch st = Some url \<longrightarrow>
        snd (handleRetryWithProxy B st) = [proxy_url B url]
        \<and> \<not> showDialog (fst (handleRetryWithProxy B st)))
   \<and> (url \<noteq> [] \<and> urlToFetch st = Some url \<and> fetch_try B url True = Some e \<longrightarrow>
        fetchError (fst (handleRetryWithProxy B st)) = Some (''Error whilefetching, '' @ error_text e))
   \<and> (url \<noteq> [] \<and> \<not> showDialog st \<longrightarrow>
        snd (load_remote B st url confirmed)
          = (if fetch_try B url False \<noteq> None \<and> confirmed then [url, proxy_url B url] else [url]))"
  by (auto simp: fetchDatabase_def handleRetryWithProxy_def load_remote_def fetchUrl_def proxy_url_def
       Let_def split: option.splits prod.splits)

theorem remote_load_fallback_witness:
  "fetch_try cors_browser ''https://example.org/db.sqlite'' False = Some (Error ''Failed to fetch'')
   \<and> fetchDatabase cors_browser initial_state ''https://example.org/db.sqlite'' False
       = (\<lparr>fetchError = None, showDialog = True,
           urlToFetch = Some ''https://example.org/db.sqlite'', isFetching = False\<rparr>,
          [''https://example.org/db.sqlite''])
   \<and> snd (load_remote cors_browser initial_state ''https://example.org/db.sqlite'' True)
       = [''https://example.org/db.sqlite'',
          ''https://corsproxy.io/?https%3A%2F%2Fexample.org%2Fdb.sqlite'']
   \<and> fetch_try cors_browser ''https://example.org/db.sqlite'' True = Some (Error ''URL not found or invalid'')
   \<and> fetchError (fst (handleRetryWithProxy cors_browser
        \<lparr>fetchError = None, showDialog = True,
         urlToFetch = Some ''https://example.org/db.sqlite'', isFetching = False\<rparr>))
       = Some ''Error whilefetching, URL not found or invalid''"
  using remote_load_fallback [of cors_browser "''https://example.org/db.sqlite''" "Error ''Failed to fetch''" initial_state True]
    remote_load_fallback [of cors_browser "''https://example.org/db.sqlite''" "Error ''URL not found or invalid''"
       "\<lparr>fetchError = None, showDialog = True, urlToFetch = Some ''https://example.org/db.sqlite'', isFetching = False\<rparr>" True]
  by (simp add: cors_direct cors_proxy initial_state_def proxy_url_def) (simp add: cors_browser_def)

end
